theory Spec2Isabelle
  imports Main "HOL-Library.Word"
begin

section \<open>Go values as the binder sees them\<close>

text \<open>
  The package works on dynamically typed values (\<^verbatim>\<open>interface{}\<close>) through
  reflection. A value is modelled with its dynamic type; a type is what
  \<^verbatim>\<open>reflect.Type\<close> shows of it: its \<^verbatim>\<open>String()\<close> and its \<^verbatim>\<open>Kind()\<close>.
\<close>

datatype kind =
    Kind_Invalid | Kind_Bool
  | Kind_Int | Kind_Int8 | Kind_Int16 | Kind_Int32 | Kind_Int64
  | Kind_Uint | Kind_Uint8 | Kind_Uint16 | Kind_Uint32 | Kind_Uint64 | Kind_Uintptr
  | Kind_Float32 | Kind_Float64 | Kind_Complex64 | Kind_Complex128
  | Kind_Array | Kind_Chan | Kind_Func | Kind_Interface | Kind_Map | Kind_Ptr
  | Kind_Slice | Kind_String | Kind_Struct | Kind_UnsafePointer

datatype gotype = GoType (type_String: string) (type_Kind: kind)

text \<open>A floating-point number is its IEEE 754 bit pattern; it is not interpreted.\<close>

datatype float32 = Float32bits "32 word"
datatype float64 = Float64bits "64 word"

text \<open>
  \<^verbatim>\<open>int\<close> is 64 bits wide (\<^verbatim>\<open>strconv.IntSize = 64\<close>, as on amd64 and arm64).
  \<open>VOther t n\<close> is a value of any type \<open>t\<close> that has no constructor of its own
  (a \<^verbatim>\<open>time.Duration\<close>, a \<^verbatim>\<open>bool\<close>, a slice); \<open>n\<close> stands for its contents,
  which the package never inspects.
\<close>

datatype "value" =
    VNil
  | VString string
  | VInt "64 word"
  | VInt8 "8 word"
  | VInt16 "16 word"
  | VInt32 "32 word"
  | VInt64 "64 word"
  | VFloat32 float32
  | VFloat64 float64
  | VOther gotype nat

definition IntSize :: int where
  "IntSize = 64"

text \<open>\<^verbatim>\<open>reflect.TypeOf\<close>: \<open>None\<close> for the nil interface value.\<close>

fun TypeOf :: "value \<Rightarrow> gotype option" where
  "TypeOf VNil = None"
| "TypeOf (VString _) = Some (GoType ''string'' Kind_String)"
| "TypeOf (VInt _) = Some (GoType ''int'' Kind_Int)"
| "TypeOf (VInt8 _) = Some (GoType ''int8'' Kind_Int8)"
| "TypeOf (VInt16 _) = Some (GoType ''int16'' Kind_Int16)"
| "TypeOf (VInt32 _) = Some (GoType ''int32'' Kind_Int32)"
| "TypeOf (VInt64 _) = Some (GoType ''int64'' Kind_Int64)"
| "TypeOf (VFloat32 _) = Some (GoType ''float32'' Kind_Float32)"
| "TypeOf (VFloat64 _) = Some (GoType ''float64'' Kind_Float64)"
| "TypeOf (VOther t _) = Some t"

text \<open>The verb \<^verbatim>\<open>%T\<close> of \<^verbatim>\<open>fmt\<close>.\<close>

definition fmt_T :: "value \<Rightarrow> string" where
  "fmt_T v = (case TypeOf v of None \<Rightarrow> ''<nil>'' | Some t \<Rightarrow> type_String t)"

section \<open>Errors\<close>

text \<open>
  The \<^verbatim>\<open>error\<close> values that occur: the four error types of the package,
  \<^verbatim>\<open>*strconv.NumError\<close> (function, input, cause) and any other error, which
  is known by its message only. An entry of a \<^verbatim>\<open>BindingErrors\<close> and the cause of
  a \<^verbatim>\<open>BindingError\<close> are errors: the \<^verbatim>\<open>nil\<close> error is not among them.
\<close>

datatype numerr = ErrSyntax | ErrRange | ErrBase int | ErrBitSize int

datatype goerror =
    InvalidBindingError string
  | RequiredError string
  | BindingError string goerror
  | BindingErrors "goerror list"
  | NumError string string numerr
  | OtherError string

text \<open>
  What the model takes from the Go library without interpreting it:
  \<^verbatim>\<open>strconv.ParseFloat\<close>, the conversion \<^verbatim>\<open>float32(x)\<close>, \<^verbatim>\<open>strconv.Quote\<close>
  (it needs the Unicode tables) and the assignability of a type to a type
  whose kind is not a basic one (it needs method sets and underlying types).
\<close>

record golib =
  ParseFloat :: "string \<Rightarrow> int \<Rightarrow> float64 \<times> goerror option"
  to_float32 :: "float64 \<Rightarrow> float32"
  Quote :: "string \<Rightarrow> string"
  AssignableTo :: "gotype \<Rightarrow> gotype \<Rightarrow> bool"

text \<open>\<^verbatim>\<open>strings.Join\<close>.\<close>

fun Join :: "string list \<Rightarrow> string \<Rightarrow> string" where
  "Join [] sep = []"
| "Join [x] sep = x"
| "Join (x # y # ys) sep = x @ sep @ Join (y # ys) sep"

text \<open>\<^verbatim>\<open>strconv.Itoa\<close>; a digit is read from the table of digits.\<close>

definition digit_char :: "nat \<Rightarrow> char" where
  "digit_char d = ''0123456789'' ! d"

function FormatUint :: "nat \<Rightarrow> string" where
  "FormatUint n = (if n < 10 then [digit_char n] else FormatUint (n div 10) @ [digit_char (n mod 10)])"
  by pat_completeness auto
termination
  by (relation "measure id") auto

definition Itoa :: "int \<Rightarrow> string" where
  "Itoa i = (if i < 0 then CHR ''-'' # FormatUint (nat (- i)) else FormatUint (nat i))"

text \<open>The em dash of the messages, in UTF-8.\<close>

definition em_dash :: string where
  "em_dash = [CHR 0xE2, CHR 0x80, CHR 0x94]"

fun numerr_Error :: "numerr \<Rightarrow> string" where
  "numerr_Error ErrSyntax = ''invalid syntax''"
| "numerr_Error ErrRange = ''value out of range''"
| "numerr_Error (ErrBase b) = ''invalid base '' @ Itoa b"
| "numerr_Error (ErrBitSize b) = ''invalid bit size '' @ Itoa b"

text \<open>
  The method \<^verbatim>\<open>Error()\<close> of each error type. For \<^verbatim>\<open>BindingErrors\<close> the source
  appends every entry's message to a slice and joins the slice with \<^verbatim>\<open>"; "\<close>.
\<close>

fun Error :: "golib \<Rightarrow> goerror \<Rightarrow> string"
  and messages_of :: "golib \<Rightarrow> goerror list \<Rightarrow> string list \<Rightarrow> string list" where
  "Error lib (InvalidBindingError msg) = msg"
| "Error lib (RequiredError name) = name @ '' '' @ em_dash @ '' field required but not specified''"
| "Error lib (BindingError name cause) = name @ '' '' @ em_dash @ '' '' @ Error lib cause"
| "Error lib (BindingErrors errors) = Join (messages_of lib errors []) ''; ''"
| "Error lib (NumError fn num err) =
     ''strconv.'' @ fn @ '': parsing '' @ Quote lib num @ '': '' @ numerr_Error err"
| "Error lib (OtherError msg) = msg"
| "messages_of lib [] messages = messages"
| "messages_of lib (err # errors) messages = messages_of lib errors (messages @ [Error lib err])"

text \<open>
  \<^verbatim>\<open>BindingErrors.Field\<close>: the loop returns at the first \<^verbatim>\<open>RequiredError\<close> or
  \<^verbatim>\<open>BindingError\<close> of that name; entries of any other type are passed over;
  \<open>None\<close> is the \<^verbatim>\<open>nil\<close> error.
\<close>

fun BindingErrors_Field :: "goerror list \<Rightarrow> string \<Rightarrow> goerror option" where
  "BindingErrors_Field [] name = None"
| "BindingErrors_Field (RequiredError n # errors) name =
     (if n = name then Some (RequiredError n) else BindingErrors_Field errors name)"
| "BindingErrors_Field (BindingError n cause # errors) name =
     (if n = name then Some (BindingError n cause) else BindingErrors_Field errors name)"
| "BindingErrors_Field (_ # errors) name = BindingErrors_Field errors name"

section \<open>The library functions the conversions call\<close>

subsection \<open>\<^verbatim>\<open>strconv.ParseInt\<close>\<close>

text \<open>
  The value of a digit: \<^verbatim>\<open>c - '0'\<close> for a decimal digit and
  \<^verbatim>\<open>lower(c) - 'a' + 10\<close> for a letter, where \<^verbatim>\<open>lower(c) = c | 0x20\<close> lies
  between \<^verbatim>\<open>'a'\<close> and \<^verbatim>\<open>'z'\<close> exactly for the ASCII letters of both cases.
\<close>

definition is_decimal :: "char \<Rightarrow> bool" where
  "is_decimal c = (48 \<le> (of_char c :: nat) \<and> (of_char c :: nat) \<le> 57)"

definition digit_of :: "char \<Rightarrow> nat option" where
  "digit_of c =
     (let n = (of_char c :: nat) in
      if 48 \<le> n \<and> n \<le> 57 then Some (n - 48)
      else if 97 \<le> n \<and> n \<le> 122 then Some (n - 97 + 10)
      else if 65 \<le> n \<and> n \<le> 90 then Some (n - 65 + 10)
      else None)"

definition lower :: "char \<Rightarrow> char" where
  "lower c = (if 65 \<le> (of_char c :: nat) \<and> (of_char c :: nat) \<le> 90
              then char_of ((of_char c :: nat) + 32) else c)"

definition maxUint64 :: nat where
  "maxUint64 = 2 ^ 64 - 1"

text \<open>
  The digit loop of \<^verbatim>\<open>ParseUint\<close>, on 64-bit unsigned numbers: \<open>n * base\<close>
  cannot wrap below the cutoff, \<open>n + d\<close> can, and the source tests it with
  \<^verbatim>\<open>n1 < n\<close>.
\<close>

fun ParseUint_digits ::
  "bool \<Rightarrow> nat \<Rightarrow> nat \<Rightarrow> nat \<Rightarrow> string \<Rightarrow> nat \<Rightarrow> bool \<Rightarrow> nat \<times> bool \<times> numerr option" where
  "ParseUint_digits base0 base cutoff maxVal [] n underscores = (n, underscores, None)"
| "ParseUint_digits base0 base cutoff maxVal (c # cs) n underscores =
     (if c = CHR ''_'' \<and> base0 then ParseUint_digits base0 base cutoff maxVal cs n True
      else case digit_of c of
        None \<Rightarrow> (0, underscores, Some ErrSyntax)
      | Some d \<Rightarrow>
          if d \<ge> base then (0, underscores, Some ErrSyntax)
          else if n \<ge> cutoff then (maxVal, underscores, Some ErrRange)
          else
            let n' = n * base;
                n1 = (n' + d) mod 2 ^ 64
            in if n1 < n' \<or> n1 > maxVal then (maxVal, underscores, Some ErrRange)
               else ParseUint_digits base0 base cutoff maxVal cs n1 underscores)"

text \<open>\<^verbatim>\<open>underscoreOK\<close>: underscores only between digits, or a base prefix and a digit.\<close>

fun underscoreOK_loop :: "bool \<Rightarrow> char \<Rightarrow> string \<Rightarrow> bool" where
  "underscoreOK_loop hex saw [] = (saw \<noteq> CHR ''_'')"
| "underscoreOK_loop hex saw (c # cs) =
     (if is_decimal c \<or> hex \<and> 97 \<le> (of_char (lower c) :: nat) \<and> (of_char (lower c) :: nat) \<le> 102
      then underscoreOK_loop hex (CHR ''0'') cs
      else if c = CHR ''_'' then
        (if saw \<noteq> CHR ''0'' then False else underscoreOK_loop hex (CHR ''_'') cs)
      else if saw = CHR ''_'' then False
      else underscoreOK_loop hex (CHR ''!'') cs)"

definition underscoreOK :: "string \<Rightarrow> bool" where
  "underscoreOK s0 =
     (let s = (if s0 \<noteq> [] \<and> (hd s0 = CHR ''-'' \<or> hd s0 = CHR ''+'') then tl s0 else s0) in
      if length s \<ge> 2 \<and> hd s = CHR ''0''
         \<and> (lower (s ! 1) = CHR ''b'' \<or> lower (s ! 1) = CHR ''o'' \<or> lower (s ! 1) = CHR ''x'')
      then underscoreOK_loop (lower (s ! 1) = CHR ''x'') (CHR ''0'') (drop 2 s)
      else underscoreOK_loop False (CHR ''^'') s)"

text \<open>The base and the digits of a number written for base 0 (\<open>s\<close> is not empty).\<close>

definition base_prefix :: "string \<Rightarrow> nat \<times> string" where
  "base_prefix s =
     (if hd s = CHR ''0'' then
        (if length s \<ge> 3 \<and> lower (s ! 1) = CHR ''b'' then (2, drop 2 s)
         else if length s \<ge> 3 \<and> lower (s ! 1) = CHR ''o'' then (8, drop 2 s)
         else if length s \<ge> 3 \<and> lower (s ! 1) = CHR ''x'' then (16, drop 2 s)
         else (8, drop 1 s))
      else (10, s))"

definition ParseUint :: "string \<Rightarrow> int \<Rightarrow> int \<Rightarrow> nat \<times> numerr option" where
  "ParseUint s base bitSize =
     (if s = [] then (0, Some ErrSyntax)
      else
        (case (if 2 \<le> base \<and> base \<le> 36 then Some (nat base, s)
               else if base = 0 then Some (base_prefix s)
               else None) of
           None \<Rightarrow> (0, Some (ErrBase base))
         | Some (b, digits) \<Rightarrow>
            if bitSize \<noteq> 0 \<and> (bitSize < 0 \<or> bitSize > 64) then (0, Some (ErrBitSize bitSize))
            else
              let bits = (if bitSize = 0 then IntSize else bitSize);
                  cutoff = maxUint64 div b + 1;
                  maxVal = 2 ^ nat bits - 1
              in (case ParseUint_digits (base = 0) b cutoff maxVal digits 0 False of
                    (n, underscores, Some err) \<Rightarrow> (n, Some err)
                  | (n, underscores, None) \<Rightarrow>
                      if underscores \<and> \<not> underscoreOK s then (0, Some ErrSyntax)
                      else (n, None))))"

definition ParseInt :: "string \<Rightarrow> int \<Rightarrow> int \<Rightarrow> int \<times> goerror option" where
  "ParseInt s0 base bitSize =
     (if s0 = [] then (0, Some (NumError ''ParseInt'' s0 ErrSyntax))
      else
        let neg = (hd s0 = CHR ''-'');
            s = (if hd s0 = CHR ''+'' \<or> hd s0 = CHR ''-'' then tl s0 else s0)
        in (case ParseUint s base bitSize of
             (un, Some ErrSyntax) \<Rightarrow> (0, Some (NumError ''ParseInt'' s0 ErrSyntax))
           | (un, Some (ErrBase b)) \<Rightarrow> (0, Some (NumError ''ParseInt'' s0 (ErrBase b)))
           | (un, Some (ErrBitSize b)) \<Rightarrow> (0, Some (NumError ''ParseInt'' s0 (ErrBitSize b)))
           | (un, _) \<Rightarrow>
               let bits = (if bitSize = 0 then IntSize else bitSize);
                   cutoff = (2 :: nat) ^ nat (bits - 1)
               in if \<not> neg \<and> un \<ge> cutoff
                  then (int cutoff - 1, Some (NumError ''ParseInt'' s0 ErrRange))
                  else if neg \<and> un > cutoff
                  then (- int cutoff, Some (NumError ''ParseInt'' s0 ErrRange))
                  else (if neg then - int un else int un, None)))"

subsection \<open>\<^verbatim>\<open>fmt.Sscanf\<close> with the two formats of the package\<close>

text \<open>
  The input is read rune by rune. \<^verbatim>\<open>utf8.DecodeRuneInString\<close> gives the rune
  at the head of a string and the number of its bytes: the byte itself below
  \<^verbatim>\<open>0x80\<close>, the rune of a well-formed sequence of two to four bytes, and
  \<^verbatim>\<open>RuneError\<close> with one byte for anything else.
\<close>

definition RuneError :: nat where
  "RuneError = 0xFFFD"

definition DecodeRune :: "string \<Rightarrow> nat \<times> nat" where
  "DecodeRune s =
     (case map of_char s of
        [] \<Rightarrow> (RuneError, 0)
      | s0 # rest \<Rightarrow>
          if s0 < 0x80 then (s0, 1)
          else if s0 < 0xC2 \<or> 0xF4 < s0 then (RuneError, 1)
          else
            let sz = (if s0 < 0xE0 then 2 else if s0 < 0xF0 then 3 else 4 :: nat);
                lo = (if s0 = 0xE0 then 0xA0 else if s0 = 0xF0 then 0x90 else 0x80);
                hi = (if s0 = 0xED then 0x9F else if s0 = 0xF4 then 0x8F else 0xBF)
            in if length s < sz then (RuneError, 1)
               else
                 let s1 = rest ! 0 in
                 if s1 < lo \<or> hi < s1 then (RuneError, 1)
                 else if sz \<le> 2 then ((s0 mod 32) * 64 + s1 mod 64, 2)
                 else
                   let s2 = rest ! 1 in
                   if s2 < 0x80 \<or> 0xBF < s2 then (RuneError, 1)
                   else if sz \<le> 3 then ((s0 mod 16) * 4096 + (s1 mod 64) * 64 + s2 mod 64, 3)
                   else
                     let s3 = rest ! 2 in
                     if s3 < 0x80 \<or> 0xBF < s3 then (RuneError, 1)
                     else ((s0 mod 8) * 262144 + (s1 mod 64) * 4096 + (s2 mod 64) * 64
                           + s3 mod 64, 4))"

text \<open>The table of white space of \<^verbatim>\<open>fmt\<close>, by rune.\<close>

definition isSpace :: "nat \<Rightarrow> bool" where
  "isSpace r =
     ((0x0009 \<le> r \<and> r \<le> 0x000D) \<or> r = 0x0020 \<or> r = 0x0085 \<or> r = 0x00A0 \<or> r = 0x1680
      \<or> (0x2000 \<le> r \<and> r \<le> 0x200A) \<or> (0x2028 \<le> r \<and> r \<le> 0x2029) \<or> r = 0x202F
      \<or> r = 0x205F \<or> r = 0x3000)"

text \<open>
  \<^verbatim>\<open>SkipSpace\<close> of a scan without newline-as-space: a newline is an error, other
  white space is passed. The rune at the head of an input that is not empty
  has at least one byte, so what is dropped after the first byte is the rest
  of the rune.
\<close>

fun SkipSpace :: "string \<Rightarrow> string + string" where
  "SkipSpace [] = Inr []"
| "SkipSpace (c # cs) =
     (case DecodeRune (c # cs) of
        (r, width) \<Rightarrow>
          if r = 10 then Inl ''unexpected newline''
          else if isSpace r then SkipSpace (drop (width - 1) cs)
          else Inr (c # cs))"

text \<open>
  The verb \<^verbatim>\<open>%d\<close> into an \<^verbatim>\<open>*int\<close>: skip white space, fail with \<^verbatim>\<open>io.EOF\<close> at
  the end of the input, take an optional sign and at least one decimal digit,
  and convert the token with \<^verbatim>\<open>ParseInt(tok, 10, 64)\<close>; what it gives fits an
  \<^verbatim>\<open>int\<close> of 64 bits, so the overflow check that follows passes. The result
  is the message of the error (\<open>Inl\<close>), or the number and the rest of the
  input.
\<close>

definition scanInt :: "golib \<Rightarrow> string \<Rightarrow> string + int \<times> string" where
  "scanInt lib input =
     (case SkipSpace input of
        Inl msg \<Rightarrow> Inl msg
      | Inr s \<Rightarrow>
          if s = [] then Inl ''EOF''
          else
            let sign = (if hd s = CHR ''+'' \<or> hd s = CHR ''-'' then [hd s] else []);
                s1 = (if hd s = CHR ''+'' \<or> hd s = CHR ''-'' then tl s else s)
            in if s1 = [] then Inl ''EOF''
               else if \<not> is_decimal (hd s1) then Inl ''expected integer''
               else
                 (case ParseInt (sign @ takeWhile is_decimal s1) 10 64 of
                    (i, Some err) \<Rightarrow> Inl (Error lib err)
                  | (i, None) \<Rightarrow> Inr (i, dropWhile is_decimal s1)))"

text \<open>
  \<^verbatim>\<open>fmt.Sscanf(str, "%d,%d", &bits, &base)\<close>: the two variables after the call
  and the message of the error, if any. A variable is written only when its
  verb has scanned; input after the second number is not looked at.
\<close>

definition Sscanf_d_d :: "golib \<Rightarrow> string \<Rightarrow> int \<Rightarrow> int \<Rightarrow> int \<times> int \<times> string option" where
  "Sscanf_d_d lib str bits base =
     (case scanInt lib str of
        Inl msg \<Rightarrow> (bits, base, Some msg)
      | Inr (bits', rest) \<Rightarrow>
          (case rest of
             [] \<Rightarrow> (bits', base, Some ''unexpected EOF'')
           | c # rest' \<Rightarrow>
               if c \<noteq> CHR '','' then (bits', base, Some ''input does not match format'')
               else
                 (case scanInt lib rest' of
                    Inl msg \<Rightarrow> (bits', base, Some msg)
                  | Inr (base', _) \<Rightarrow> (bits', base', None))))"

text \<open>\<^verbatim>\<open>fmt.Sscanf(str, "%d", &bits)\<close>.\<close>

definition Sscanf_d :: "golib \<Rightarrow> string \<Rightarrow> int \<Rightarrow> int \<times> string option" where
  "Sscanf_d lib str bits =
     (case scanInt lib str of
        Inl msg \<Rightarrow> (bits, Some msg)
      | Inr (bits', _) \<Rightarrow> (bits', None))"

text \<open>\<^verbatim>\<open>strings.HasSuffix\<close>.\<close>

definition HasSuffix :: "string \<Rightarrow> string \<Rightarrow> bool" where
  "HasSuffix s suffix =
     (length s \<ge> length suffix \<and> drop (length s - length suffix) s = suffix)"

section \<open>The conversion functions\<close>

text \<open>
  A \<^verbatim>\<open>BindFunc\<close> takes the mapped value and the option string and returns a
  value and an error (\<open>None\<close> is \<^verbatim>\<open>nil\<close>). \<^verbatim>\<open>Bindings\<close> maps names to them.
  A function value, here and below, is a function: the \<^verbatim>\<open>nil\<close> function
  value, which panics when it is called, is not among the inputs.
\<close>

type_synonym BindFunc = "value \<Rightarrow> string \<Rightarrow> value \<times> goerror option"

type_synonym Bindings = "string \<rightharpoonup> BindFunc"

text \<open>
  The part of \<^verbatim>\<open>bindInt\<close> after the options are read: the mapped value has to
  be a string; it is parsed and converted to the integer type of the width.
\<close>

definition bindInt_parse :: "value \<Rightarrow> int \<Rightarrow> int \<Rightarrow> value \<times> goerror option" where
  "bindInt_parse data base bits =
     (case data of
        VString str \<Rightarrow>
          (case ParseInt str base bits of
             (result, Some err) \<Rightarrow> (VNil, Some err)
           | (result, None) \<Rightarrow>
               if bits = 8 then (VInt8 (word_of_int result), None)
               else if bits = 16 then (VInt16 (word_of_int result), None)
               else if bits = 32 then (VInt32 (word_of_int result), None)
               else if bits = 64 then (VInt64 (word_of_int result), None)
               else (VInt (word_of_int result), None))
      | _ \<Rightarrow>
          (VNil, Some (InvalidBindingError
             (''only strings are supported, but '' @ fmt_T data @ '' given''))))"

text \<open>The same part of \<^verbatim>\<open>bindFloat\<close>.\<close>

definition bindFloat_parse :: "golib \<Rightarrow> value \<Rightarrow> int \<Rightarrow> value \<times> goerror option" where
  "bindFloat_parse lib data bits =
     (case data of
        VString str \<Rightarrow>
          (case ParseFloat lib str bits of
             (result, Some err) \<Rightarrow> (VNil, Some err)
           | (result, None) \<Rightarrow>
               if bits = 32 then (VFloat32 (to_float32 lib result), None)
               else if bits = 64 then (VFloat64 result, None)
               else (VFloat32 (to_float32 lib result), None))
      | _ \<Rightarrow>
          (VNil, Some (InvalidBindingError
             (''only strings are supported, but '' @ fmt_T data @ '' given''))))"

definition bindInt :: "golib \<Rightarrow> BindFunc" where
  "bindInt lib data opts =
     (case Sscanf_d_d lib opts 0 10 of
        (bits, base, Some msg) \<Rightarrow>
          if \<not> HasSuffix msg ''EOF'' then (VNil, Some (InvalidBindingError msg))
          else bindInt_parse data base bits
      | (bits, base, None) \<Rightarrow> bindInt_parse data base bits)"

definition bindFloat :: "golib \<Rightarrow> BindFunc" where
  "bindFloat lib data opts =
     (case Sscanf_d lib opts 32 of
        (bits, Some msg) \<Rightarrow>
          if \<not> HasSuffix msg ''EOF'' then (VNil, Some (InvalidBindingError msg))
          else bindFloat_parse lib data bits
      | (bits, None) \<Rightarrow> bindFloat_parse lib data bits)"

definition bindString :: BindFunc where
  "bindString data opts = (data, None)"

section \<open>Struct fields\<close>

text \<open>
  A \<^verbatim>\<open>reflect.StructField\<close>: its name, its package path (empty exactly for an
  exported field), its type, and its tag as the key-value pairs that
  \<^verbatim>\<open>StructTag.Lookup\<close> reads, in the order of the tag string.
\<close>

record StructField =
  Name :: string
  PkgPath :: string
  Type :: gotype
  Tag :: "(string \<times> string) list"

definition Lookup :: "(string \<times> string) list \<Rightarrow> string \<Rightarrow> string option" where
  "Lookup tag key = map_of tag key"

type_synonym FieldNameFunc = "StructField \<Rightarrow> string"

type_synonym MapFunc = "string \<Rightarrow> value"

text \<open>\<^verbatim>\<open>strings.Split(name, ",")[0]\<close>: the text before the first comma.\<close>

definition before_comma :: "string \<Rightarrow> string" where
  "before_comma name = takeWhile (\<lambda>c. c \<noteq> CHR '','') name"

text \<open>The loop of \<^verbatim>\<open>getFieldName\<close> over the keys that are left.\<close>

fun getFieldName_keys :: "string list \<Rightarrow> StructField \<Rightarrow> string" where
  "getFieldName_keys [] field = Name field"
| "getFieldName_keys (key # keys) field =
     (case Lookup (Tag field) key of
        Some name \<Rightarrow>
          if before_comma name \<noteq> [] then before_comma name
          else getFieldName_keys keys field
      | None \<Rightarrow> getFieldName_keys keys field)"

definition getFieldName :: FieldNameFunc where
  "getFieldName field =
     getFieldName_keys [''form'', ''json'', ''bson'', ''yaml'', ''toml''] field"

definition isRequired :: "StructField \<Rightarrow> bool" where
  "isRequired field =
     (case Lookup (Tag field) ''required'' of
        Some v \<Rightarrow> v = ''true''
      | None \<Rightarrow> False)"

text \<open>The map of \<^verbatim>\<open>getDefaultBindingTag\<close>; a kind that is not a key gives \<^verbatim>\<open>""\<close>.\<close>

definition getDefaultBindingTag :: "StructField \<Rightarrow> string" where
  "getDefaultBindingTag field =
     (case type_Kind (Type field) of
        Kind_Int \<Rightarrow> ''int''
      | Kind_Int8 \<Rightarrow> ''int:8''
      | Kind_Int16 \<Rightarrow> ''int:16''
      | Kind_Int32 \<Rightarrow> ''int:32''
      | Kind_Int64 \<Rightarrow> ''int:64''
      | Kind_Float32 \<Rightarrow> ''float:32''
      | Kind_Float64 \<Rightarrow> ''float:64''
      | Kind_String \<Rightarrow> ''string''
      | _ \<Rightarrow> [])"

text \<open>
  \<^verbatim>\<open>strings.SplitN(tag, ":", 2)\<close>: \<open>binding_name\<close> is \<^verbatim>\<open>args[0]\<close>, the text before
  the first colon; \<open>binding_opts\<close> is \<^verbatim>\<open>args[1]\<close>, the text after it, when there
  is a colon, and \<^verbatim>\<open>""\<close> when there is none.
\<close>

definition binding_name :: "string \<Rightarrow> string" where
  "binding_name tag = takeWhile (\<lambda>c. c \<noteq> CHR '':'') tag"

definition binding_opts :: "string \<Rightarrow> string" where
  "binding_opts tag = drop 1 (dropWhile (\<lambda>c. c \<noteq> CHR '':'') tag)"

text \<open>
  \<^verbatim>\<open>getBinding\<close>: \<open>None\<close> is the result \<^verbatim>\<open>(nil, false)\<close>; otherwise the closure
  that calls the registered function with the options of the tag. Both
  branches of the last \<^verbatim>\<open>if\<close> return, so the \<^verbatim>\<open>return nil, true\<close> after it is never
  reached.
\<close>

definition getBinding ::
  "StructField \<Rightarrow> Bindings \<Rightarrow> (string \<Rightarrow> value \<times> goerror option) option" where
  "getBinding field bindings =
     (let tag0 = (case Lookup (Tag field) ''binding'' of Some t \<Rightarrow> t | None \<Rightarrow> []);
          tag = (if tag0 = [] then getDefaultBindingTag field else tag0);
          name = binding_name tag;
          opts = binding_opts tag
      in case bindings name of
           Some binding \<Rightarrow> Some (\<lambda>data. binding (VString data) opts)
         | None \<Rightarrow> None)"

section \<open>Assignment through reflection\<close>

text \<open>
  \<^verbatim>\<open>structField.Set(reflect.ValueOf(value))\<close> panics when \<open>value\<close> is \<^verbatim>\<open>nil\<close>
  and when the type of \<open>value\<close> is not assignable to the type of the field.
  A type of a basic kind is a named type and no interface: only a value of
  that very type is assignable to it. For the other kinds the library decides.
\<close>

definition is_basic :: "kind \<Rightarrow> bool" where
  "is_basic k =
     (k \<in> {Kind_Bool, Kind_Int, Kind_Int8, Kind_Int16, Kind_Int32, Kind_Int64,
            Kind_Uint, Kind_Uint8, Kind_Uint16, Kind_Uint32, Kind_Uint64, Kind_Uintptr,
            Kind_Float32, Kind_Float64, Kind_Complex64, Kind_Complex128, Kind_String})"

definition Set_ok :: "golib \<Rightarrow> gotype \<Rightarrow> value \<Rightarrow> bool" where
  "Set_ok lib t v =
     (case TypeOf v of
        None \<Rightarrow> False
      | Some vt \<Rightarrow>
          if vt = t then True
          else if is_basic (type_Kind t) then False
          else AssignableTo lib vt t)"

section \<open>Bind\<close>

text \<open>
  The third, variadic argument: a \<^verbatim>\<open>Bindings\<close>, a \<^verbatim>\<open>FieldNameFunc\<close>, or a value
  of any other type, which the type switch passes over.
\<close>

datatype bind_option =
    Bindings_option Bindings
  | FieldNameFunc_option FieldNameFunc
  | Other_option

text \<open>
  The argument \<^verbatim>\<open>output\<close>, by what \<^verbatim>\<open>reflect\<close> finds in it: the nil interface
  value (kind \<^verbatim>\<open>Invalid\<close>), a value of a kind other than \<^verbatim>\<open>Ptr\<close>, a nil
  pointer, a pointer to a variable that is no struct (with the \<^verbatim>\<open>String()\<close> of
  its type), and a pointer to a struct variable: the \<^verbatim>\<open>String()\<close> and the
  \<^verbatim>\<open>Name()\<close> of the struct type, and the fields in declaration order, each
  with the value it holds.
\<close>

datatype target =
    Untyped_nil
  | Non_pointer
  | Nil_pointer
  | Pointer_to_other string
  | Pointer_to_struct string string "(StructField \<times> value) list"

text \<open>
  A call ends in a panic or returns an \<^verbatim>\<open>error\<close> (\<open>None\<close> is \<^verbatim>\<open>nil\<close>). With it
  the model gives the target after the call and the names the mapper was
  called with, in order.
\<close>

datatype result = Panic | Return "goerror option"

definition builtin_bindings :: "golib \<Rightarrow> Bindings" where
  "builtin_bindings lib =
     [''int'' \<mapsto> bindInt lib, ''float'' \<mapsto> bindFloat lib, ''string'' \<mapsto> bindString]"

text \<open>The loop over \<^verbatim>\<open>options\<close>: the registry and the name function after it.\<close>

fun apply_options ::
  "bind_option list \<Rightarrow> Bindings \<times> FieldNameFunc \<Rightarrow> Bindings \<times> FieldNameFunc" where
  "apply_options [] cfg = cfg"
| "apply_options (Bindings_option option # options) (bindings, fieldNameFunc) =
     apply_options options (bindings ++ option, fieldNameFunc)"
| "apply_options (FieldNameFunc_option option # options) (bindings, fieldNameFunc) =
     apply_options options (bindings, option)"
| "apply_options (Other_option # options) cfg = apply_options options cfg"

text \<open>
  \<open>next_field\<close> puts a processed field, and the mapper call made for it, in
  front of what the rest of the loop gives.
\<close>

definition next_field ::
  "StructField \<times> value \<Rightarrow> string list \<Rightarrow>
   result \<times> (StructField \<times> value) list \<times> string list \<Rightarrow>
   result \<times> (StructField \<times> value) list \<times> string list" where
  "next_field fv call rest =
     (case rest of (res, fvs, calls) \<Rightarrow> (res, fv # fvs, call @ calls))"

text \<open>
  The loop over the fields, from the field reached on, with the errors
  collected so far. The source counts an index \<^verbatim>\<open>i\<close> up to \<^verbatim>\<open>NumField()\<close> and
  reads \<^verbatim>\<open>structType.Field(i)\<close> and \<^verbatim>\<open>structValue.Field(i)\<close>; here the fields come
  in that order, each with its value. A \<^verbatim>\<open>continue\<close> is \<open>next_field\<close> on the rest
  of the loop, a \<^verbatim>\<open>return\<close> and a panic end it with the fields as they are.
\<close>

fun Bind_fields ::
  "golib \<Rightarrow> Bindings \<Rightarrow> FieldNameFunc \<Rightarrow> MapFunc \<Rightarrow> string \<Rightarrow> string \<Rightarrow>
   (StructField \<times> value) list \<Rightarrow> goerror list \<Rightarrow>
   result \<times> (StructField \<times> value) list \<times> string list" where
  "Bind_fields lib bindings fieldNameFunc mapper structType structName [] errors =
     (if length errors > 0 then (Return (Some (BindingErrors errors)), [], [])
      else (Return None, [], []))"
| "Bind_fields lib bindings fieldNameFunc mapper structType structName ((field, old) # rest) errors =
     (let name = fieldNameFunc field in
      if name = [] then
        next_field (field, old) []
          (Bind_fields lib bindings fieldNameFunc mapper structType structName rest errors)
      else
        (case getBinding field bindings of
           None \<Rightarrow>
             (Return (Some (InvalidBindingError
                (''binding for '' @ structType @ ''.'' @ Name field
                 @ '' is specified but not registered''))),
              (field, old) # rest, [])
         | Some binding \<Rightarrow>
             (case mapper name of
                VNil \<Rightarrow>
                  next_field (field, old) [name]
                    (Bind_fields lib bindings fieldNameFunc mapper structType structName rest
                       (if isRequired field then errors @ [RequiredError name] else errors))
              | VString data \<Rightarrow>
                  (case binding data of
                     (v, Some err) \<Rightarrow>
                       next_field (field, old) [name]
                         (Bind_fields lib bindings fieldNameFunc mapper structType structName rest
                            (errors @ [BindingError name err]))
                   | (v, None) \<Rightarrow>
                       if PkgPath field \<noteq> [] then
                         (Return (Some (InvalidBindingError
                            (''field '' @ structName @ ''.'' @ Name field
                             @ '' is unexported and can not be set''))),
                          (field, old) # rest, [name])
                       else if \<not> Set_ok lib (Type field) v then
                         (Panic, (field, old) # rest, [name])
                       else
                         next_field (field, v) [name]
                           (Bind_fields lib bindings fieldNameFunc mapper structType structName
                              rest errors))
              | data \<Rightarrow>
                  (Return (Some (InvalidBindingError
                     (''binding values of type '' @ fmt_T data @ '' ('' @ structType @ ''.''
                      @ Name field @ '') is not supported''))),
                   (field, old) # rest, [name]))))"

text \<open>
  \<^verbatim>\<open>Bind\<close>. \<^verbatim>\<open>reflect.Indirect\<close> of a nil pointer is the zero \<^verbatim>\<open>Value\<close>, and
  \<^verbatim>\<open>Type()\<close> of the zero \<^verbatim>\<open>Value\<close> panics. What \<^verbatim>\<open>Indirect\<close> gives for a
  pointer that is not nil is addressable and was not reached through an
  unexported field, so \<^verbatim>\<open>CanSet()\<close> holds and the third check passes.
\<close>

definition Bind ::
  "golib \<Rightarrow> target \<Rightarrow> MapFunc \<Rightarrow> bind_option list \<Rightarrow> result \<times> target \<times> string list" where
  "Bind lib output mapper options =
     (case apply_options options (builtin_bindings lib, getFieldName) of
        (bindings, fieldNameFunc) \<Rightarrow>
          (case output of
             Untyped_nil \<Rightarrow>
               (Return (Some (InvalidBindingError ''specified output is not a pointer'')),
                output, [])
           | Non_pointer \<Rightarrow>
               (Return (Some (InvalidBindingError ''specified output is not a pointer'')),
                output, [])
           | Nil_pointer \<Rightarrow> (Panic, output, [])
           | Pointer_to_other structType \<Rightarrow>
               (Return (Some (InvalidBindingError
                  (''output should be struct type, but '' @ structType @ '' is given''))),
                output, [])
           | Pointer_to_struct structType structName fvs \<Rightarrow>
               (case Bind_fields lib bindings fieldNameFunc mapper structType structName
                       fvs [] of
                  (res, fvs', calls) \<Rightarrow>
                    (res, Pointer_to_struct structType structName fvs', calls))))"

subsection \<open>The registry as a map in the store\<close>

text \<open>
  A Go map is a reference: \<^verbatim>\<open>var bindings = Bindings{...}\<close> makes a new map,
  \<^verbatim>\<open>bindings[key] = binding\<close> writes into it, and a \<^verbatim>\<open>Bindings\<close> among the options
  is the map of the caller itself. To tell which maps a call writes and which
  it reads, the maps are kept in a store, a list with the addresses as
  indices. An option then holds the address of its map (\<open>None\<close> for the
  \<^verbatim>\<open>nil\<close> map, which ranges over nothing); an address beyond the store is no
  map.
\<close>

type_synonym store = "Bindings list"

datatype option_ref =
    Bindings_ref "nat option"
  | FieldNameFunc_ref FieldNameFunc
  | Other_ref

definition map_at :: "store \<Rightarrow> nat option \<Rightarrow> Bindings" where
  "map_at h r =
     (case r of
        None \<Rightarrow> Map.empty
      | Some a \<Rightarrow> if a < length h then h ! a else Map.empty)"

text \<open>The option as a value: with the map that is at the address.\<close>

fun value_option :: "store \<Rightarrow> option_ref \<Rightarrow> bind_option" where
  "value_option h (Bindings_ref r) = Bindings_option (map_at h r)"
| "value_option h (FieldNameFunc_ref f) = FieldNameFunc_option f"
| "value_option h Other_ref = Other_option"

text \<open>
  The loop over \<^verbatim>\<open>options\<close> in the store: the inner loop over the keys of an
  option writes each entry into the map at the address \<open>bindings\<close>, and into
  no other.
\<close>

fun options_loop ::
  "option_ref list \<Rightarrow> nat \<Rightarrow> FieldNameFunc \<Rightarrow> store \<Rightarrow> FieldNameFunc \<times> store" where
  "options_loop [] bindings fieldNameFunc h = (fieldNameFunc, h)"
| "options_loop (Bindings_ref option # options) bindings fieldNameFunc h =
     options_loop options bindings fieldNameFunc
       (h[bindings := (h ! bindings) ++ map_at h option])"
| "options_loop (FieldNameFunc_ref option # options) bindings fieldNameFunc h =
     options_loop options bindings option h"
| "options_loop (Other_ref # options) bindings fieldNameFunc h =
     options_loop options bindings fieldNameFunc h"

text \<open>
  Lines 65 to 82 of \<^verbatim>\<open>Bind\<close>: the map literal is allocated at the next free
  address, then the options are gone through. The result is the address of
  the registry, the name function and the store after it.
\<close>

definition make_registry ::
  "golib \<Rightarrow> store \<Rightarrow> option_ref list \<Rightarrow> nat \<times> FieldNameFunc \<times> store" where
  "make_registry lib h options =
     (let bindings = length h;
          h1 = h @ [builtin_bindings lib]
      in case options_loop options bindings getFieldName h1 of
           (fieldNameFunc, h') \<Rightarrow> (bindings, fieldNameFunc, h'))"

section \<open>Notions used in the statements\<close>

text \<open>An entry that \<^verbatim>\<open>Field\<close> can return for a name: a field-level error of that name.\<close>

fun field_error_named :: "string \<Rightarrow> goerror \<Rightarrow> bool" where
  "field_error_named name (RequiredError n) = (n = name)"
| "field_error_named name (BindingError n cause) = (n = name)"
| "field_error_named name _ = False"

text \<open>The two kinds of field-level error.\<close>

fun field_level :: "goerror \<Rightarrow> bool" where
  "field_level (RequiredError n) = True"
| "field_level (BindingError n cause) = True"
| "field_level _ = False"

text \<open>
  The name rule in the words of the specification: of the annotations found
  under the keys, in the order of the keys, the first whose text before a
  comma is not empty; the declared name when there is none.
\<close>

definition first_annotation_name :: "string list \<Rightarrow> StructField \<Rightarrow> string" where
  "first_annotation_name keys field =
     (case List.find (\<lambda>name. name \<noteq> [])
             (map before_comma (List.map_filter (Lookup (Tag field)) keys)) of
        Some name \<Rightarrow> name
      | None \<Rightarrow> Name field)"

text \<open>The registry and the name function that a call with these options works with.\<close>

definition registry :: "golib \<Rightarrow> bind_option list \<Rightarrow> Bindings" where
  "registry lib options = fst (apply_options options (builtin_bindings lib, getFieldName))"

definition resolver :: "golib \<Rightarrow> bind_option list \<Rightarrow> FieldNameFunc" where
  "resolver lib options = snd (apply_options options (builtin_bindings lib, getFieldName))"

text \<open>The \<^verbatim>\<open>Bindings\<close> among the options, in the order given.\<close>

fun override_sets :: "bind_option list \<Rightarrow> Bindings list" where
  "override_sets [] = []"
| "override_sets (Bindings_option m # options) = m # override_sets options"
| "override_sets (_ # options) = override_sets options"

text \<open>
  For a mapper that has no value at all: the errors of the required fields,
  the names the mapper is called with, and the error returned for a list of
  collected errors.
\<close>

definition absent_errors :: "FieldNameFunc \<Rightarrow> (StructField \<times> value) list \<Rightarrow> goerror list" where
  "absent_errors fieldNameFunc fvs =
     map (\<lambda>field. RequiredError (fieldNameFunc field))
       (filter (\<lambda>field. fieldNameFunc field \<noteq> [] \<and> isRequired field) (map fst fvs))"

definition resolved_names :: "FieldNameFunc \<Rightarrow> (StructField \<times> value) list \<Rightarrow> string list" where
  "resolved_names fieldNameFunc fvs =
     filter (\<lambda>name. name \<noteq> []) (map (\<lambda>fv. fieldNameFunc (fst fv)) fvs)"

definition returned :: "goerror list \<Rightarrow> result" where
  "returned errors = (if errors = [] then Return None else Return (Some (BindingErrors errors)))"

text \<open>The kinds that are no key of the map in \<^verbatim>\<open>getDefaultBindingTag\<close>.\<close>

definition no_default_binding :: "kind \<Rightarrow> bool" where
  "no_default_binding k =
     (k \<notin> {Kind_Int, Kind_Int8, Kind_Int16, Kind_Int32, Kind_Int64,
            Kind_Float32, Kind_Float64, Kind_String})"

definition not_registered :: "string \<Rightarrow> StructField \<Rightarrow> goerror" where
  "not_registered structType field =
     InvalidBindingError
       (''binding for '' @ structType @ ''.'' @ Name field @ '' is specified but not registered'')"

text \<open>The signed value of a Go integer.\<close>

fun int_value :: "value \<Rightarrow> int option" where
  "int_value (VInt w) = Some (sint w)"
| "int_value (VInt8 w) = Some (sint w)"
| "int_value (VInt16 w) = Some (sint w)"
| "int_value (VInt32 w) = Some (sint w)"
| "int_value (VInt64 w) = Some (sint w)"
| "int_value _ = None"

text \<open>
  The sized integer types, each with the decimal text of its greatest value
  and that value.
\<close>

definition max_table :: "(gotype \<times> string \<times> value) list" where
  "max_table =
     [(GoType ''int8'' Kind_Int8, ''127'', VInt8 127),
      (GoType ''int16'' Kind_Int16, ''32767'', VInt16 32767),
      (GoType ''int32'' Kind_Int32, ''2147483647'', VInt32 2147483647),
      (GoType ''int64'' Kind_Int64, ''9223372036854775807'', VInt64 9223372036854775807)]"

subsection \<open>Example inputs\<close>

text \<open>
  A library for the examples. None of them parses a float or assigns to a
  field of a kind that is not basic, and the texts they quote are plain.
\<close>

definition example_lib :: golib where
  "example_lib =
     \<lparr>ParseFloat = (\<lambda>s bitSize. (Float64bits 0, Some (NumError ''ParseFloat'' s ErrSyntax))),
      to_float32 = (\<lambda>x. Float32bits 0),
      Quote = (\<lambda>s. [CHR 0x22] @ s @ [CHR 0x22]),
      AssignableTo = (\<lambda>v t. False)\<rparr>"

text \<open>An exported field.\<close>

definition plain_field :: "string \<Rightarrow> gotype \<Rightarrow> (string \<times> string) list \<Rightarrow> StructField" where
  "plain_field name t tag = \<lparr>Name = name, PkgPath = [], Type = t, Tag = tag\<rparr>"

text \<open>\<^verbatim>\<open>Flag bool\<close>, and the value \<^verbatim>\<open>true\<close>.\<close>

definition flag_field :: StructField where
  "flag_field = plain_field ''Flag'' (GoType ''bool'' Kind_Bool) []"

definition true_value :: "value" where
  "true_value = VOther (GoType ''bool'' Kind_Bool) 1"

text \<open>\<^verbatim>\<open>Age int `binding:"int:abc"`\<close>.\<close>

definition age_abc :: StructField where
  "age_abc = plain_field ''Age'' (GoType ''int'' Kind_Int) [(''binding'', ''int:abc'')]"

text \<open>\<^verbatim>\<open>F int\<close> with the one annotation \<^verbatim>\<open>key:"x"\<close>.\<close>

definition tagged :: "string \<Rightarrow> StructField" where
  "tagged key = plain_field ''F'' (GoType ''int'' Kind_Int) [(key, ''x'')]"

text \<open>
  The struct of \<^verbatim>\<open>TestBind_PreservesAlreadySetValues\<close>, with the values set
  before the call.
\<close>

definition preset_user :: "(StructField \<times> value) list" where
  "preset_user =
     [(plain_field ''Age'' (GoType ''int'' Kind_Int) [], VInt 1),
      (plain_field ''Name'' (GoType ''string'' Kind_String) [], VString ''John Doe Jr.'')]"

text \<open>
  \<^verbatim>\<open>age8 int8\<close>, not exported, in package \<^verbatim>\<open>main\<close>; \<^verbatim>\<open>Big int64 `binding:"int"`\<close>;
  \<^verbatim>\<open>Level Level\<close> for \<^verbatim>\<open>type Level int8\<close>; \<^verbatim>\<open>Age8 int8\<close>.
\<close>

definition unexported_int8 :: StructField where
  "unexported_int8 =
     \<lparr>Name = ''age8'', PkgPath = ''main'', Type = GoType ''int8'' Kind_Int8, Tag = []\<rparr>"

definition annotated_int64 :: StructField where
  "annotated_int64 = plain_field ''Big'' (GoType ''int64'' Kind_Int64) [(''binding'', ''int'')]"

definition named_int8 :: StructField where
  "named_int8 = plain_field ''Level'' (GoType ''main.Level'' Kind_Int8) []"

definition plain_int8 :: StructField where
  "plain_int8 = plain_field ''Age8'' (GoType ''int8'' Kind_Int8) []"

text \<open>A conversion of the caller that fails, and one that returns what it is given.\<close>

definition failing :: BindFunc where
  "failing data opts = (VNil, Some (OtherError ''no''))"

definition echo :: BindFunc where
  "echo data opts = (data, None)"

text \<open>A \<^verbatim>\<open>Bindings\<close> of the caller with the one key \<^verbatim>\<open>custom\<close>.\<close>

definition custom_bindings :: Bindings where
  "custom_bindings = [''custom'' \<mapsto> echo]"

text \<open>Two field errors, as \<^verbatim>\<open>TestBind_CanCheckRequiredFields\<close> gets them.\<close>

definition two_required :: "goerror list" where
  "two_required = [RequiredError ''Age'', RequiredError ''Name'']"

section \<open>Facts about the parts\<close>

lemmas parse_defs = ParseInt_def ParseUint_def digit_of_def maxUint64_def IntSize_def

lemmas scan_defs =
  Sscanf_d_d_def scanInt_def DecodeRune_def RuneError_def isSpace_def is_decimal_def
  HasSuffix_def

lemmas tag_defs =
  getFieldName_def Lookup_def getBinding_def getDefaultBindingTag_def binding_name_def
  binding_opts_def isRequired_def before_comma_def

lemma plain_field_sel:
  "Name (plain_field name t tag) = name"
  "PkgPath (plain_field name t tag) = []"
  "Type (plain_field name t tag) = t"
  "Tag (plain_field name t tag) = tag"
  by (simp_all add: plain_field_def)

lemma messages_of_append:
  "messages_of lib errors messages = messages @ map (Error lib) errors"
  by (induction errors arbitrary: messages) simp_all

lemma BindingErrors_Field_find:
  "BindingErrors_Field errors name = List.find (field_error_named name) errors"
  by (induction errors name rule: BindingErrors_Field.induct) auto

lemma getFieldName_keys_first:
  "getFieldName_keys keys field = first_annotation_name keys field"
  by (induction keys)
    (auto simp: first_annotation_name_def List.map_filter_simps split: option.splits)

lemma getFieldName_tagged:
  "key \<in> {''form'', ''json'', ''bson'', ''yaml'', ''toml''} \<Longrightarrow> getFieldName (tagged key) = ''x''"
  by (auto simp: getFieldName_def tagged_def plain_field_sel Lookup_def before_comma_def)

lemma first_annotation_name_tagged:
  "first_annotation_name [''form'', k1, k2, k3] (tagged key) = ''x''
   \<Longrightarrow> key \<in> {''form'', k1, k2, k3}"
  by (auto simp: first_annotation_name_def tagged_def plain_field_sel Lookup_def before_comma_def
      List.map_filter_simps split: if_splits)

lemma getFieldName_plain:
  "getFieldName (plain_field name t []) = name"
  "getFieldName (plain_field name t [(''required'', ''true'')]) = name"
  by (simp_all add: getFieldName_def plain_field_sel Lookup_def)

lemma Bind_struct:
  "Bind lib (Pointer_to_struct st sn fvs) mapper options =
     (case Bind_fields lib (registry lib options) (resolver lib options) mapper st sn fvs [] of
        (res, fvs', calls) \<Rightarrow> (res, Pointer_to_struct st sn fvs', calls))"
  by (simp add: Bind_def registry_def resolver_def split: prod.splits)

lemma registry_default: "registry lib [] = builtin_bindings lib"
  by (simp add: registry_def)

lemma resolver_default: "resolver lib [] = getFieldName"
  by (simp add: resolver_def)

lemma apply_options_fst:
  "fst (apply_options options (bindings, f)) = foldl (++) bindings (override_sets options)"
proof (induction options arbitrary: bindings f)
  case Nil
  then show ?case by simp
next
  case (Cons option options)
  then show ?case by (cases option) simp_all
qed

lemma foldl_map_add_lookup:
  "foldl (++) bindings ms key =
     (case List.find (\<lambda>m. m key \<noteq> None) (rev ms) of
        Some m \<Rightarrow> m key
      | None \<Rightarrow> bindings key)"
proof (induction ms rule: rev_induct)
  case Nil
  then show ?case by simp
next
  case (snoc m ms)
  then show ?case by (cases "m key") (simp_all add: map_add_def)
qed

lemma dom_builtin_bindings: "dom (builtin_bindings lib) = {''int'', ''float'', ''string''}"
  by (auto simp: builtin_bindings_def)

lemma builtin_bindings_int: "builtin_bindings lib ''int'' = Some (bindInt lib)"
  by (simp add: builtin_bindings_def)


lemma builtin_bindings_empty: "builtin_bindings lib [] = None"
  by (simp add: builtin_bindings_def)

text \<open>With no options, \<^verbatim>\<open>Sscanf\<close> reads nothing and fails with \<^verbatim>\<open>EOF\<close>.\<close>

lemma Sscanf_no_opts: "Sscanf_d_d lib [] 0 10 = (0, 10, Some ''EOF'')"
  by (simp add: Sscanf_d_d_def scanInt_def)

lemma bindInt_no_opts: "bindInt lib data [] = bindInt_parse data 10 0"
  by (simp add: bindInt_def Sscanf_no_opts HasSuffix_def)

lemma bindInt_width:
  "bindInt lib data ''8'' = bindInt_parse data 10 8"
  "bindInt lib data ''16'' = bindInt_parse data 10 16"
  "bindInt lib data ''32'' = bindInt_parse data 10 32"
  "bindInt lib data ''64'' = bindInt_parse data 10 64"
  by (simp_all add: bindInt_def scan_defs parse_defs)

lemma bindInt_malformed_opts:
  "bindInt lib data ''abc'' = (VNil, Some (InvalidBindingError ''expected integer''))"
  by (simp add: bindInt_def scan_defs)


lemma ParseInt_max:
  "ParseInt ''127'' 10 8 = (127, None)"
  "ParseInt ''32767'' 10 16 = (32767, None)"
  "ParseInt ''2147483647'' 10 32 = (2147483647, None)"
  "ParseInt ''9223372036854775807'' 10 64 = (9223372036854775807, None)"
  by (simp_all add: parse_defs)

lemma Itoa_max:
  "Itoa (2 ^ 7 - 1) = ''127''"
  "Itoa (2 ^ 15 - 1) = ''32767''"
  "Itoa (2 ^ 31 - 1) = ''2147483647''"
  "Itoa (2 ^ 63 - 1) = ''9223372036854775807''"
  by (simp_all add: Itoa_def digit_char_def)



lemma getDefaultBindingTag_none:
  "no_default_binding (type_Kind (Type field)) \<Longrightarrow> getDefaultBindingTag field = []"
  by (cases "type_Kind (Type field)") (simp_all add: getDefaultBindingTag_def no_default_binding_def)

lemma getBinding_no_default:
  assumes "no_default_binding (type_Kind (Type field))"
    and "Lookup (Tag field) ''binding'' = None \<or> Lookup (Tag field) ''binding'' = Some []"
    and "bindings [] = None"
  shows "getBinding field bindings = None"
  using assms by (auto simp: getBinding_def getDefaultBindingTag_none binding_name_def Let_def)

text \<open>
  The sized integer fields: the default tag gives the width to \<^verbatim>\<open>bindInt\<close>,
  the greatest value of the width parses, and the result has the type of the
  field.
\<close>

lemma max_table_binding:
  assumes "(t, txt, v) \<in> set max_table" and "Type field = t"
    and "Lookup (Tag field) ''binding'' = None \<or> Lookup (Tag field) ''binding'' = Some []"
    and "bindings ''int'' = Some (bindInt lib)"
  shows "\<exists>binding. getBinding field bindings = Some binding \<and> binding txt = (v, None)
           \<and> Set_ok lib t v"
proof -
  have b: "getBinding field bindings =
             Some (\<lambda>data. bindInt lib (VString data) (binding_opts (getDefaultBindingTag field)))"
    using assms(1,2,3,4)
    by (auto simp: max_table_def getBinding_def getDefaultBindingTag_def binding_name_def)
  consider "t = GoType ''int8'' Kind_Int8" "txt = ''127''" "v = VInt8 127"
    | "t = GoType ''int16'' Kind_Int16" "txt = ''32767''" "v = VInt16 32767"
    | "t = GoType ''int32'' Kind_Int32" "txt = ''2147483647''" "v = VInt32 2147483647"
    | "t = GoType ''int64'' Kind_Int64" "txt = ''9223372036854775807''"
      "v = VInt64 9223372036854775807"
    using assms(1) by (auto simp: max_table_def)
  then have "bindInt lib (VString txt) (binding_opts (getDefaultBindingTag field)) = (v, None)
             \<and> Set_ok lib t v"
  proof cases
    case 1
    then show ?thesis
      using assms(2)
      by (simp add: getDefaultBindingTag_def binding_opts_def bindInt_width bindInt_parse_def
          ParseInt_max Set_ok_def)
  next
    case 2
    then show ?thesis
      using assms(2)
      by (simp add: getDefaultBindingTag_def binding_opts_def bindInt_width bindInt_parse_def
          ParseInt_max Set_ok_def)
  next
    case 3
    then show ?thesis
      using assms(2)
      by (simp add: getDefaultBindingTag_def binding_opts_def bindInt_width bindInt_parse_def
          ParseInt_max Set_ok_def)
  next
    case 4
    then show ?thesis
      using assms(2)
      by (simp add: getDefaultBindingTag_def binding_opts_def bindInt_width bindInt_parse_def
          ParseInt_max Set_ok_def)
  qed
  with b show ?thesis by simp
qed

lemma max_table_values:
  assumes "(t, txt, v) \<in> set max_table"
  shows "TypeOf v = Some t"
    and "\<exists>w \<in> {8, 16, 32, 64 :: nat}. int_value v = Some (2 ^ (w - 1) - 1)
           \<and> txt = Itoa (2 ^ (w - 1) - 1)"
proof -
  consider "t = GoType ''int8'' Kind_Int8" "txt = ''127''" "v = VInt8 127"
    | "t = GoType ''int16'' Kind_Int16" "txt = ''32767''" "v = VInt16 32767"
    | "t = GoType ''int32'' Kind_Int32" "txt = ''2147483647''" "v = VInt32 2147483647"
    | "t = GoType ''int64'' Kind_Int64" "txt = ''9223372036854775807''"
      "v = VInt64 9223372036854775807"
    using assms by (auto simp: max_table_def)
  then have "TypeOf v = Some t
      \<and> (\<exists>w \<in> {8, 16, 32, 64 :: nat}. int_value v = Some (2 ^ (w - 1) - 1)
            \<and> txt = Itoa (2 ^ (w - 1) - 1))"
  proof cases
    case 1
    have "int_value (VInt8 127) = Some (2 ^ (8 - 1) - 1) \<and> ''127'' = Itoa (2 ^ (8 - 1) - 1)"
      using Itoa_max(1) by simp
    with 1 show ?thesis by (simp del: int_value.simps)
  next
    case 2
    have "int_value (VInt16 32767) = Some (2 ^ (16 - 1) - 1)
            \<and> ''32767'' = Itoa (2 ^ (16 - 1) - 1)"
      using Itoa_max(2) by simp
    with 2 show ?thesis by (simp del: int_value.simps)
  next
    case 3
    have "int_value (VInt32 2147483647) = Some (2 ^ (32 - 1) - 1)
            \<and> ''2147483647'' = Itoa (2 ^ (32 - 1) - 1)"
      using Itoa_max(3) by simp
    with 3 show ?thesis by (simp del: int_value.simps)
  next
    case 4
    have "int_value (VInt64 9223372036854775807) = Some (2 ^ (64 - 1) - 1)
            \<and> ''9223372036854775807'' = Itoa (2 ^ (64 - 1) - 1)"
      using Itoa_max(4) by simp
    with 4 show ?thesis by (simp del: int_value.simps)
  qed
  then show "TypeOf v = Some t"
    and "\<exists>w \<in> {8, 16, 32, 64 :: nat}. int_value v = Some (2 ^ (w - 1) - 1)
           \<and> txt = Itoa (2 ^ (w - 1) - 1)"
    by simp_all
qed

text \<open>
  A mapper without any value: every field keeps its value, the required
  fields give their errors, and the mapper is called once for each field
  that has a name.
\<close>

lemma Bind_fields_absent:
  assumes "\<forall>fv \<in> set fvs. fieldNameFunc (fst fv) = [] \<or> getBinding (fst fv) bindings \<noteq> None"
  shows "Bind_fields lib bindings fieldNameFunc (\<lambda>name. VNil) st sn fvs errors =
           (returned (errors @ absent_errors fieldNameFunc fvs), fvs,
            resolved_names fieldNameFunc fvs)"
  using assms
proof (induction fvs arbitrary: errors)
  case Nil
  then show ?case by (simp add: returned_def absent_errors_def resolved_names_def)
next
  case (Cons fv fvs)
  obtain field old where fv: "fv = (field, old)" by (cases fv)
  have IH: "\<And>errors. Bind_fields lib bindings fieldNameFunc (\<lambda>name. VNil) st sn fvs errors =
              (returned (errors @ absent_errors fieldNameFunc fvs), fvs,
               resolved_names fieldNameFunc fvs)"
    using Cons by simp
  show ?case
  proof (cases "fieldNameFunc field = []")
    case True
    then show ?thesis
      by (simp add: fv IH next_field_def absent_errors_def resolved_names_def)
  next
    case False
    with Cons.prems fv obtain binding where "getBinding field bindings = Some binding"
      by auto
    with False show ?thesis
      by (simp add: fv IH next_field_def absent_errors_def resolved_names_def Let_def)
  qed
qed

lemma next_field_result:
  "next_field fv call r = (res, fvs', calls) \<Longrightarrow> \<exists>fvs'' calls''. r = (res, fvs'', calls'')"
  by (cases r) (auto simp: next_field_def)

text \<open>
  Whatever the call is given, the entries of an aggregate it returns are
  field-level errors: an \<^verbatim>\<open>InvalidBindingError\<close> is never itself an entry.
\<close>

lemma Bind_fields_entries:
  assumes "Bind_fields lib bindings fieldNameFunc mapper st sn fvs errors =
             (Return (Some (BindingErrors es)), fvs', calls)"
    and "\<forall>e \<in> set errors. field_level e"
  shows "\<forall>e \<in> set es. field_level e"
  using assms
proof (induction fvs arbitrary: errors fvs' calls)
  case Nil
  then show ?case by (auto split: if_splits)
next
  case (Cons fv fvs)
  obtain field old where fv: "fv = (field, old)" by (cases fv)
  let ?name = "fieldNameFunc field"
  show ?case
  proof (cases "?name = []")
    case True
    with Cons.prems(1) fv obtain fvs'' calls'' where
      "Bind_fields lib bindings fieldNameFunc mapper st sn fvs errors =
         (Return (Some (BindingErrors es)), fvs'', calls'')"
      by (auto dest: next_field_result)
    then show ?thesis using Cons.IH Cons.prems(2) by blast
  next
    case False
    show ?thesis
    proof (cases "getBinding field bindings")
      case None
      with False Cons.prems(1) fv show ?thesis by simp
    next
      case (Some binding)
      show ?thesis
      proof (cases "mapper ?name")
        case VNil
        with False Some Cons.prems(1) fv obtain fvs'' calls'' where
          "Bind_fields lib bindings fieldNameFunc mapper st sn fvs
             (if isRequired field then errors @ [RequiredError ?name] else errors) =
           (Return (Some (BindingErrors es)), fvs'', calls'')"
          by (auto simp: Let_def dest: next_field_result)
        moreover have "\<forall>e \<in> set (if isRequired field then errors @ [RequiredError ?name] else errors).
                         field_level e"
          using Cons.prems(2) by simp
        ultimately show ?thesis using Cons.IH by blast
      next
        case (VString data)
        obtain v err where b: "binding data = (v, err)" by (cases "binding data")
        show ?thesis
        proof (cases err)
          case None
          with False Some VString b Cons.prems(1) fv obtain fvs'' calls'' where
            "Bind_fields lib bindings fieldNameFunc mapper st sn fvs errors =
               (Return (Some (BindingErrors es)), fvs'', calls'')"
            by (auto simp: Let_def dest: next_field_result split: if_splits)
          then show ?thesis using Cons.IH Cons.prems(2) by blast
        next
          case (Some e)
          with False \<open>getBinding field bindings = Some binding\<close> VString b Cons.prems(1) fv
          obtain fvs'' calls'' where
            "Bind_fields lib bindings fieldNameFunc mapper st sn fvs
               (errors @ [BindingError ?name e]) =
               (Return (Some (BindingErrors es)), fvs'', calls'')"
            by (auto simp: Let_def dest: next_field_result)
          moreover have "\<forall>e' \<in> set (errors @ [BindingError ?name e]). field_level e'"
            using Cons.prems(2) by simp
          ultimately show ?thesis using Cons.IH by blast
        qed
      qed (use False Some Cons.prems(1) fv in \<open>simp_all add: Let_def\<close>)
    qed
  qed
qed

text \<open>
  A field of a basic kind and a conversion that succeeds with a value of
  another type, or with \<^verbatim>\<open>nil\<close>: the assignment panics.
\<close>

lemma Bind_fields_mismatch:
  assumes "fieldNameFunc field \<noteq> []" and "getBinding field bindings = Some binding"
    and "mapper (fieldNameFunc field) = VString data" and "binding data = (v, None)"
    and "PkgPath field = []" and "is_basic (type_Kind (Type field))"
    and "TypeOf v \<noteq> Some (Type field)"
  shows "Bind_fields lib bindings fieldNameFunc mapper st sn ((field, old) # rest) errors =
           (Panic, (field, old) # rest, [fieldNameFunc field])"
  using assms by (auto simp: Let_def Set_ok_def split: option.splits)

lemma next_field_fields:
  "fst (snd (next_field fv call r)) = fv # fst (snd r)"
  by (cases r) (simp add: next_field_def)

text \<open>A mapper without any value: no field is written, whatever the call returns.\<close>

lemma Bind_fields_absent_frame:
  "fst (snd (Bind_fields lib bindings fieldNameFunc (\<lambda>name. VNil) st sn fvs errors)) = fvs"
proof (induction fvs arbitrary: errors)
  case Nil
  then show ?case by simp
next
  case (Cons fv fvs)
  obtain field old where fv: "fv = (field, old)" by (cases fv)
  show ?case
  proof (cases "fieldNameFunc field = []")
    case True
    then show ?thesis by (simp add: fv Cons.IH next_field_fields)
  next
    case False
    then show ?thesis
      by (cases "getBinding field bindings") (simp_all add: fv Cons.IH next_field_fields Let_def)
  qed
qed

lemma Bind_absent_frame:
  "fst (snd (Bind lib output (\<lambda>name. VNil) options)) = output"
proof (cases "output")
  case (Pointer_to_struct st sn fvs)
  have "fst (snd (Bind_fields lib (registry lib options) (resolver lib options) (\<lambda>name. VNil)
                    st sn fvs [])) = fvs"
    by (rule Bind_fields_absent_frame)
  then show ?thesis
    by (auto simp: Pointer_to_struct Bind_struct split: prod.splits)
qed (simp_all add: Bind_def split: prod.splits)

text \<open>
  The loop over the options in the store and the loop over the options as
  values build the same registry, and the store loop writes the new map only.
\<close>

lemma map_at_append:
  "cur ++ map_at (h @ [cur]) r = cur ++ map_at h r"
  by (cases r) (auto simp: map_at_def nth_append fun_eq_iff map_add_def split: option.splits)

lemma value_option_old:
  assumes "\<forall>r. Bindings_ref (Some r) \<in> set options \<longrightarrow> r < length h"
  shows "map (value_option (h @ g)) options = map (value_option h) options"
  using assms
proof (induction options)
  case Nil
  then show ?case by simp
next
  case (Cons option options)
  have "value_option (h @ g) option = value_option h option"
  proof (cases option)
    case (Bindings_ref r)
    show ?thesis
    proof (cases r)
      case None
      then show ?thesis by (simp add: Bindings_ref map_at_def)
    next
      case (Some a)
      with Cons.prems Bindings_ref have "a < length h" by simp
      then show ?thesis by (simp add: Bindings_ref Some map_at_def nth_append)
    qed
  qed simp_all
  with Cons show ?case by simp
qed

lemma options_loop_store:
  "options_loop options (length h) f (h @ [cur]) =
     (snd (apply_options (map (value_option h) options) (cur, f)),
      h @ [fst (apply_options (map (value_option h) options) (cur, f))])"
proof (induction options arbitrary: cur f)
  case Nil
  then show ?case by simp
next
  case (Cons option options)
  show ?case
  proof (cases option)
    case (Bindings_ref r)
    have "(h @ [cur])[length h := ((h @ [cur]) ! length h) ++ map_at (h @ [cur]) r] =
            h @ [cur ++ map_at h r]"
      by (simp add: map_at_append)
    then show ?thesis
      by (simp add: Bindings_ref Cons.IH)
  next
    case (FieldNameFunc_ref g)
    then show ?thesis by (simp add: Cons.IH)
  next
    case Other_ref
    then show ?thesis by (simp add: Cons.IH)
  qed
qed

lemma make_registry_eq:
  "make_registry lib h options =
     (length h, resolver lib (map (value_option h) options),
      h @ [registry lib (map (value_option h) options)])"
  by (simp add: make_registry_def options_loop_store registry_def resolver_def Let_def)

lemma builtin_bindings_key:
  "builtin_bindings lib key =
     (if key = ''int'' then Some (bindInt lib)
      else if key = ''float'' then Some (bindFloat lib)
      else if key = ''string'' then Some bindString
      else None)"
  by (simp add: builtin_bindings_def)

lemma registry_lookup:
  "registry lib options key =
     (case List.find (\<lambda>m. m key \<noteq> None) (rev (override_sets options)) of
        Some m \<Rightarrow> m key
      | None \<Rightarrow> builtin_bindings lib key)"
  by (simp add: registry_def apply_options_fst foldl_map_add_lookup)

text \<open>
  The targets that are no pointer, and the pointers to something that is no
  struct: the call returns an \<^verbatim>\<open>InvalidBindingError\<close> and the mapper is not called.
\<close>

lemma Bind_invalid_target:
  assumes "output \<in> {Untyped_nil, Non_pointer, Pointer_to_other t}"
  shows "\<exists>msg. Bind lib output mapper options =
           (Return (Some (InvalidBindingError msg)), output, [])"
  using assms by (auto simp: Bind_def split: prod.splits)

section \<open>The claims\<close>



text \<open>
  C2, at a struct \<^verbatim>\<open>User\<close> of the one field \<^verbatim>\<open>Age int `binding:"int:abc"`\<close> with \<^verbatim>\<open>"5"\<close> mapped to \<^verbatim>\<open>Age\<close>:
  the options of the annotation are malformed, \<^verbatim>\<open>bindInt\<close> answers with an
  \<^verbatim>\<open>InvalidBindingError\<close>, and \<^verbatim>\<open>Bind\<close> does not abort: it goes on and returns
  the \<^verbatim>\<open>BindingErrors\<close> whose entry for \<^verbatim>\<open>Age\<close> has that error as its cause.
\<close>

theorem Bind_malformed_options_aggregated:
  "Bind example_lib
     (Pointer_to_struct ''main.User'' ''User'' [(age_abc, VInt 0)])
     (\<lambda>name. VString ''5'') [] =
   (Return (Some (BindingErrors
      [BindingError ''Age'' (InvalidBindingError ''expected integer'')])),
    Pointer_to_struct ''main.User'' ''User'' [(age_abc, VInt 0)],
    [''Age''])"
  by (simp add: Bind_def Let_def tag_defs age_abc_def plain_field_sel builtin_bindings_def
      bindInt_malformed_opts next_field_def)

text \<open>
  C3 as stated fails at \<^verbatim>\<open>struct { Flag bool }\<close>: no field is required, the
  mapper has no value, and \<^verbatim>\<open>Bind\<close> returns an error, because no conversion
  is registered for a \<^verbatim>\<open>bool\<close>.
\<close>

theorem Bind_all_absent_counterexample:
  "\<not> isRequired flag_field \<and>
   Bind example_lib (Pointer_to_struct ''struct { Flag bool }'' [] [(flag_field, true_value)])
     (\<lambda>name. VNil) [] =
   (Return (Some (InvalidBindingError
      ''binding for struct { Flag bool }.Flag is specified but not registered'')),
    Pointer_to_struct ''struct { Flag bool }'' [] [(flag_field, true_value)], [])"
  by (simp add: Bind_def Let_def tag_defs flag_field_def plain_field_sel builtin_bindings_def)

text \<open>
  C3, amended: for every target and a mapper that has no value for any name,
  the target is after the call what it was before it: no field is written.
  If, moreover, the target is a struct with no required field in which every
  field that has a name has a registered conversion, \<^verbatim>\<open>Bind\<close> returns \<^verbatim>\<open>nil\<close>.
\<close>

theorem Bind_all_absent_unchanged:
  "fst (snd (Bind lib output (\<lambda>name. VNil) options)) = output
   \<and> ((\<forall>fv \<in> set fvs. \<not> isRequired (fst fv)) \<longrightarrow>
      (\<forall>fv \<in> set fvs. resolver lib options (fst fv) = []
          \<or> getBinding (fst fv) (registry lib options) \<noteq> None) \<longrightarrow>
      Bind lib (Pointer_to_struct st sn fvs) (\<lambda>name. VNil) options =
        (Return None, Pointer_to_struct st sn fvs, resolved_names (resolver lib options) fvs))"
proof (intro conjI impI)
  show "fst (snd (Bind lib output (\<lambda>name. VNil) options)) = output"
    by (rule Bind_absent_frame)
next
  assume req: "\<forall>fv \<in> set fvs. \<not> isRequired (fst fv)"
    and reg: "\<forall>fv \<in> set fvs. resolver lib options (fst fv) = []
                \<or> getBinding (fst fv) (registry lib options) \<noteq> None"
  have "absent_errors (resolver lib options) fvs = []"
    using req by (auto simp: absent_errors_def filter_empty_conv)
  then show "Bind lib (Pointer_to_struct st sn fvs) (\<lambda>name. VNil) options =
        (Return None, Pointer_to_struct st sn fvs, resolved_names (resolver lib options) fvs)"
    using Bind_fields_absent [OF reg, of lib st sn "[]"]
    by (simp add: Bind_struct returned_def)
qed

text \<open>C3, amended, at the struct of \<^verbatim>\<open>TestBind_PreservesAlreadySetValues\<close>.\<close>

theorem Bind_all_absent_unchanged_witness:
  "Bind example_lib (Pointer_to_struct ''struct { Age int; Name string }'' [] preset_user)
     (\<lambda>name. VNil) [] =
   (Return None, Pointer_to_struct ''struct { Age int; Name string }'' [] preset_user,
    [''Age'', ''Name''])"
proof -
  have 1: "\<forall>fv \<in> set preset_user. \<not> isRequired (fst fv)"
    by (simp add: preset_user_def isRequired_def plain_field_sel Lookup_def)
  have 2: "\<forall>fv \<in> set preset_user. resolver example_lib [] (fst fv) = []
             \<or> getBinding (fst fv) (registry example_lib []) \<noteq> None"
    by (simp add: preset_user_def registry_default builtin_bindings_def getBinding_def Let_def
        getDefaultBindingTag_def binding_name_def plain_field_sel Lookup_def)
  have 3: "resolved_names (resolver example_lib []) preset_user = [''Age'', ''Name'']"
    by (simp add: resolved_names_def resolver_default preset_user_def getFieldName_plain)
  note no_error = Bind_all_absent_unchanged [where lib = example_lib and options = "[]"
      and fvs = preset_user and st = "''struct { Age int; Name string }''" and sn = "[]",
      THEN conjunct2, THEN mp, OF 1, THEN mp, OF 2]
  show ?thesis
    using no_error by (simp add: 3)
qed

text \<open>
  C4, at a nil pointer to a struct: \<^verbatim>\<open>Bind\<close> does not return an error, it
  panics, when it asks the zero \<^verbatim>\<open>reflect.Value\<close> for its type.
\<close>

theorem Bind_nil_pointer_panics:
  "Bind lib Nil_pointer mapper options = (Panic, Nil_pointer, [])"
  by (simp add: Bind_def split: prod.splits)

text \<open>
  C5 as stated fails: no list of the external-form key and three more keys
  gives the names that \<^verbatim>\<open>getFieldName\<close> gives. A field annotated under
  \<^verbatim>\<open>json\<close>, \<^verbatim>\<open>bson\<close>, \<^verbatim>\<open>yaml\<close> or \<^verbatim>\<open>toml\<close> only gets the annotated name, and these
  are four keys.
\<close>

theorem getFieldName_three_alternates_counterexample:
  "\<not> (\<exists>k1 k2 k3. \<forall>field.
        getFieldName field = first_annotation_name [''form'', k1, k2, k3] field)"
proof
  assume "\<exists>k1 k2 k3. \<forall>field.
            getFieldName field = first_annotation_name [''form'', k1, k2, k3] field"
  then obtain k1 k2 k3 where
    eq: "\<And>field. getFieldName field = first_annotation_name [''form'', k1, k2, k3] field"
    by blast
  have "''json'' \<in> {''form'', k1, k2, k3}"
    using eq [of "tagged ''json''"]
    by (intro first_annotation_name_tagged) (simp add: getFieldName_tagged)
  moreover have "''bson'' \<in> {''form'', k1, k2, k3}"
    using eq [of "tagged ''bson''"]
    by (intro first_annotation_name_tagged) (simp add: getFieldName_tagged)
  moreover have "''yaml'' \<in> {''form'', k1, k2, k3}"
    using eq [of "tagged ''yaml''"]
    by (intro first_annotation_name_tagged) (simp add: getFieldName_tagged)
  moreover have "''toml'' \<in> {''form'', k1, k2, k3}"
    using eq [of "tagged ''toml''"]
    by (intro first_annotation_name_tagged) (simp add: getFieldName_tagged)
  ultimately show False by auto
qed

text \<open>
  C5, amended: the default name function goes through the keys \<^verbatim>\<open>form\<close>,
  \<^verbatim>\<open>json\<close>, \<^verbatim>\<open>bson\<close>, \<^verbatim>\<open>yaml\<close>, \<^verbatim>\<open>toml\<close> in this order (the external-form key and
  four more) and returns the first annotation whose text before a comma is
  not empty, without the comma and what follows it; when there is none it
  returns the declared name of the field.
\<close>

theorem getFieldName_priority:
  "getFieldName field =
     first_annotation_name [''form'', ''json'', ''bson'', ''yaml'', ''toml''] field"
  by (simp add: getFieldName_def getFieldName_keys_first)

text \<open>
  C6 as stated fails at fields of these widths that are given the text of
  their greatest value: a field that is not exported is not set and the call
  returns an \<^verbatim>\<open>InvalidBindingError\<close>; an \<^verbatim>\<open>int64\<close> field annotated \<^verbatim>\<open>binding:"int"\<close>
  and a field of the defined type \<^verbatim>\<open>Level\<close> (an \<^verbatim>\<open>int8\<close>) make the call panic;
  with \<^verbatim>\<open>int\<close> registered anew by the caller the field gets what that function
  gives, here an error; with a name function that gives the empty name the
  field is passed over.
\<close>

theorem Bind_max_int_counterexample:
  "Bind example_lib (Pointer_to_struct ''main.User'' ''User'' [(unexported_int8, VInt8 0)])
     (\<lambda>name. VString ''127'') [] =
   (Return (Some (InvalidBindingError ''field User.age8 is unexported and can not be set'')),
    Pointer_to_struct ''main.User'' ''User'' [(unexported_int8, VInt8 0)], [''age8''])
   \<and> Bind example_lib (Pointer_to_struct ''main.User'' ''User'' [(annotated_int64, VInt64 0)])
       (\<lambda>name. VString ''9223372036854775807'') [] =
     (Panic, Pointer_to_struct ''main.User'' ''User'' [(annotated_int64, VInt64 0)], [''Big''])
   \<and> Bind example_lib
       (Pointer_to_struct ''main.User'' ''User''
          [(named_int8, VOther (GoType ''main.Level'' Kind_Int8) 0)])
       (\<lambda>name. VString ''127'') [] =
     (Panic,
      Pointer_to_struct ''main.User'' ''User''
        [(named_int8, VOther (GoType ''main.Level'' Kind_Int8) 0)],
      [''Level''])
   \<and> Bind example_lib (Pointer_to_struct ''main.User'' ''User'' [(plain_int8, VInt8 0)])
       (\<lambda>name. VString ''127'') [Bindings_option [''int'' \<mapsto> failing]] =
     (Return (Some (BindingErrors [BindingError ''Age8'' (OtherError ''no'')])),
      Pointer_to_struct ''main.User'' ''User'' [(plain_int8, VInt8 0)], [''Age8''])
   \<and> Bind example_lib (Pointer_to_struct ''main.User'' ''User'' [(plain_int8, VInt8 0)])
       (\<lambda>name. VString ''127'') [FieldNameFunc_option (\<lambda>field. [])] =
     (Return None, Pointer_to_struct ''main.User'' ''User'' [(plain_int8, VInt8 0)], [])"
proof -
  have p8: "bindInt_parse (VString ''127'') 10 8 = (VInt8 127, None)"
    by (simp add: bindInt_parse_def ParseInt_max)
  have p0: "bindInt_parse (VString ''9223372036854775807'') 10 0 =
              (VInt 9223372036854775807, None)"
    by (simp add: bindInt_parse_def parse_defs)
  show ?thesis
    by (simp add: Bind_def Let_def tag_defs unexported_int8_def annotated_int64_def
        named_int8_def plain_int8_def plain_field_sel builtin_bindings_def bindInt_width
        bindInt_no_opts p8 p0 Set_ok_def is_basic_def failing_def next_field_def)
qed

text \<open>
  C6, amended: an exported field of the type \<^verbatim>\<open>int8\<close>, \<^verbatim>\<open>int16\<close>, \<^verbatim>\<open>int32\<close> or
  \<^verbatim>\<open>int64\<close> itself, with no \<^verbatim>\<open>binding\<close> annotation (or an empty one) and a name
  that is not empty, in a call in which \<^verbatim>\<open>int\<close> is the built-in conversion,
  for which the mapper gives the decimal text of the greatest value of the
  width. When the loop reaches the field it assigns the value and goes on
  with the errors it had; a struct of this one field is bound without error.
  The value assigned has the type of the field and is \<open>2 ^ (w - 1) - 1\<close> for
  the width \<open>w\<close>.
\<close>

theorem Bind_max_int:
  assumes "(t, txt, v) \<in> set max_table"
    and "Type field = t" and "PkgPath field = []"
    and "Lookup (Tag field) ''binding'' = None \<or> Lookup (Tag field) ''binding'' = Some []"
    and "resolver lib options field = name" and "name \<noteq> []" and "mapper name = VString txt"
    and "registry lib options ''int'' = Some (bindInt lib)"
  shows "Bind_fields lib (registry lib options) (resolver lib options) mapper st sn
           ((field, old) # rest) errors =
         next_field (field, v) [name]
           (Bind_fields lib (registry lib options) (resolver lib options) mapper st sn rest errors)
         \<and> Bind lib (Pointer_to_struct st sn [(field, old)]) mapper options =
             (Return None, Pointer_to_struct st sn [(field, v)], [name])
         \<and> TypeOf v = Some t
         \<and> (\<exists>w \<in> {8, 16, 32, 64 :: nat}. int_value v = Some (2 ^ (w - 1) - 1)
               \<and> txt = Itoa (2 ^ (w - 1) - 1))"
proof -
  obtain binding where b: "getBinding field (registry lib options) = Some binding"
    "binding txt = (v, None)" "Set_ok lib t v"
    using max_table_binding [OF assms(1,2,4), where bindings = "registry lib options"
        and lib = lib] assms(8)
    by blast
  have step: "\<And>rest errors.
      Bind_fields lib (registry lib options) (resolver lib options) mapper st sn
        ((field, old) # rest) errors =
      next_field (field, v) [name]
        (Bind_fields lib (registry lib options) (resolver lib options) mapper st sn rest errors)"
    using assms(2,3,5,6,7) b by (simp add: Let_def)
  show ?thesis
    using max_table_values [OF assms(1)]
    by (simp only: Bind_struct step) (simp add: next_field_def)
qed

text \<open>
  C6, amended, at the field \<^verbatim>\<open>Age64 int64\<close> of \<^verbatim>\<open>TestBind_CanBindInts\<close> with the
  text \<^verbatim>\<open>"9223372036854775807"\<close>.
\<close>

theorem Bind_max_int_witness:
  "Bind example_lib
     (Pointer_to_struct ''struct { Age64 int64 }'' []
        [(plain_field ''Age64'' (GoType ''int64'' Kind_Int64) [], VInt64 0)])
     (\<lambda>name. VString ''9223372036854775807'') [] =
   (Return None,
    Pointer_to_struct ''struct { Age64 int64 }'' []
      [(plain_field ''Age64'' (GoType ''int64'' Kind_Int64) [], VInt64 9223372036854775807)],
    [''Age64''])
   \<and> int_value (VInt64 9223372036854775807) = Some (2 ^ 63 - 1)"
proof -
  let ?field = "plain_field ''Age64'' (GoType ''int64'' Kind_Int64) []"
  have 1: "(GoType ''int64'' Kind_Int64, ''9223372036854775807'', VInt64 9223372036854775807)
             \<in> set max_table"
    by (simp add: max_table_def)
  have 2: "Type ?field = GoType ''int64'' Kind_Int64" and 3: "PkgPath ?field = []"
    and 4: "Lookup (Tag ?field) ''binding'' = None \<or> Lookup (Tag ?field) ''binding'' = Some []"
    by (simp_all add: plain_field_sel Lookup_def)
  have 5: "resolver example_lib [] ?field = ''Age64''"
    by (simp add: resolver_default getFieldName_plain)
  have 6: "''Age64'' \<noteq> []" by simp
  have 7: "(\<lambda>name. VString ''9223372036854775807'') ''Age64'' = VString ''9223372036854775807''"
    by simp
  have 8: "registry example_lib [] ''int'' = Some (bindInt example_lib)"
    by (simp add: registry_default builtin_bindings_int)
  note bound = Bind_max_int [OF 1 2 3 4 5 6 7 8, where st = "''struct { Age64 int64 }''"
      and sn = "[]" and old = "VInt64 0" and rest = "[]" and errors = "[]"]
  show ?thesis
    using bound [THEN conjunct2, THEN conjunct1] by simp
qed

text \<open>
  C7: a call makes its registry as a new map, at an address that is none of
  the store before the call, and writes no map that was there: the sets of
  the caller are read only. The new map holds the sets of the caller laid
  over the built-in functions in the order given: under a key, the entry of
  the last set of the caller that has the key, and otherwise \<^verbatim>\<open>bindInt\<close> under
  \<^verbatim>\<open>int\<close>, \<^verbatim>\<open>bindFloat\<close> under \<^verbatim>\<open>float\<close>, \<^verbatim>\<open>bindString\<close> under \<^verbatim>\<open>string\<close> and nothing
  under any other key. It is the registry the fields of the call are bound
  with. A second call, with options that hold maps of the caller, gets
  another new map; the map of the first call is not written, and the
  registry of the second call is made of its own options and the built-in
  functions: nothing the first call registered is in it.
\<close>

theorem Bind_registry:
  assumes "make_registry lib h options = (bindings, fieldNameFunc, h')"
  shows "bindings = length h \<and> length h' = Suc (length h) \<and> take (length h) h' = h
    \<and> h' ! bindings = registry lib (map (value_option h) options)
    \<and> registry lib (map (value_option h) options) key =
        (case List.find (\<lambda>m. m key \<noteq> None)
                (rev (override_sets (map (value_option h) options))) of
           Some m \<Rightarrow> m key
         | None \<Rightarrow>
             if key = ''int'' then Some (bindInt lib)
             else if key = ''float'' then Some (bindFloat lib)
             else if key = ''string'' then Some bindString
             else None)
    \<and> Bind lib (Pointer_to_struct st sn fvs) mapper (map (value_option h) options) =
        (case Bind_fields lib (h' ! bindings) fieldNameFunc mapper st sn fvs [] of
           (res, fvs', calls) \<Rightarrow> (res, Pointer_to_struct st sn fvs', calls))
    \<and> (\<forall>options2 bindings2 fieldNameFunc2 h''.
          make_registry lib h' options2 = (bindings2, fieldNameFunc2, h'') \<longrightarrow>
          (\<forall>r. Bindings_ref (Some r) \<in> set options2 \<longrightarrow> r < length h) \<longrightarrow>
          bindings2 \<noteq> bindings \<and> h'' ! bindings = h' ! bindings
          \<and> h'' ! bindings2 = registry lib (map (value_option h) options2))"
proof -
  let ?vopts = "map (value_option h) options"
  have b: "bindings = length h" and f: "fieldNameFunc = resolver lib ?vopts"
    and h': "h' = h @ [registry lib ?vopts]"
    using assms by (simp_all add: make_registry_eq)
  have content: "registry lib ?vopts key =
        (case List.find (\<lambda>m. m key \<noteq> None) (rev (override_sets ?vopts)) of
           Some m \<Rightarrow> m key
         | None \<Rightarrow>
             if key = ''int'' then Some (bindInt lib)
             else if key = ''float'' then Some (bindFloat lib)
             else if key = ''string'' then Some bindString
             else None)"
    by (simp only: registry_lookup builtin_bindings_key)
  have link: "Bind lib (Pointer_to_struct st sn fvs) mapper ?vopts =
        (case Bind_fields lib (h' ! bindings) fieldNameFunc mapper st sn fvs [] of
           (res, fvs', calls) \<Rightarrow> (res, Pointer_to_struct st sn fvs', calls))"
    by (simp add: Bind_struct b f h')
  have second: "bindings2 \<noteq> bindings \<and> h'' ! bindings = h' ! bindings
          \<and> h'' ! bindings2 = registry lib (map (value_option h) options2)"
    if mk: "make_registry lib h' options2 = (bindings2, fieldNameFunc2, h'')"
      and refs: "\<forall>r. Bindings_ref (Some r) \<in> set options2 \<longrightarrow> r < length h"
    for options2 bindings2 fieldNameFunc2 h''
  proof -
    have same: "map (value_option (h @ [registry lib ?vopts])) options2 =
                  map (value_option h) options2"
      using refs by (rule value_option_old)
    have "bindings2 = length h'" and "h'' = h' @ [registry lib (map (value_option h') options2)]"
      using mk by (simp_all add: make_registry_eq)
    then show ?thesis
      by (simp add: b h' same nth_append)
  qed
  from b h' content link second show ?thesis
    by (simp only: length_append list.size take_all append_take_drop_id nth_append_length
        take_append) auto
qed

text \<open>
  C7, at a caller who holds the one map \<^verbatim>\<open>Bindings{"custom": echo}\<close> and passes
  it to a first call, and then makes a second call without options: the
  first registry has \<^verbatim>\<open>custom\<close> and the built-in \<^verbatim>\<open>int\<close>, the second has no
  \<^verbatim>\<open>custom\<close>, and the map of the caller is as it was.
\<close>

theorem Bind_registry_witness:
  "make_registry example_lib [custom_bindings] [Bindings_ref (Some 0)] =
     (1, getFieldName, [custom_bindings, builtin_bindings example_lib ++ custom_bindings])
   \<and> (builtin_bindings example_lib ++ custom_bindings) ''custom'' = Some echo
   \<and> (builtin_bindings example_lib ++ custom_bindings) ''int'' = Some (bindInt example_lib)
   \<and> make_registry example_lib
       [custom_bindings, builtin_bindings example_lib ++ custom_bindings] [] =
     (2, getFieldName,
      [custom_bindings, builtin_bindings example_lib ++ custom_bindings,
       builtin_bindings example_lib])
   \<and> builtin_bindings example_lib ''custom'' = None"
proof -
  let ?h1 = "[custom_bindings, builtin_bindings example_lib ++ custom_bindings]"
  have mk1: "make_registry example_lib [custom_bindings] [Bindings_ref (Some 0)] =
               (1, getFieldName, ?h1)"
    by (simp add: make_registry_def map_at_def)
  have mk2: "make_registry example_lib ?h1 [] =
               (2, getFieldName, ?h1 @ [builtin_bindings example_lib])"
    by (simp add: make_registry_def)
  have refs: "\<forall>r. Bindings_ref (Some r) \<in> set [] \<longrightarrow> r < length [custom_bindings]"
    by simp
  note first = Bind_registry [OF mk1, where key = "''custom''"]
  have reg1: "?h1 ! 1 = registry example_lib (map (value_option [custom_bindings])
                [Bindings_ref (Some 0)])"
    using first by blast
  have reg2: "(?h1 @ [builtin_bindings example_lib]) ! 2 =
                registry example_lib (map (value_option [custom_bindings]) [])"
    using first mk2 refs by blast
  show ?thesis
    using mk1 mk2 reg1 reg2
    by (simp add: registry_def map_at_def custom_bindings_def builtin_bindings_def)
qed

text \<open>
  C8: \<^verbatim>\<open>Field\<close> returns the first entry of the aggregate that is a
  \<^verbatim>\<open>RequiredError\<close> or a \<^verbatim>\<open>BindingError\<close> of the name asked for, and \<^verbatim>\<open>nil\<close> when
  there is none. The message of the aggregate is the messages of its entries
  in order, with \<^verbatim>\<open>"; "\<close> between one and the next: empty for no entry, the
  message of the entry for one, and for more the message of the first, the
  separator, and the message of the aggregate of the rest. For the two
  required errors of \<^verbatim>\<open>Age\<close> and \<^verbatim>\<open>Name\<close> it is the text written out.
\<close>

theorem BindingErrors_Field_Error:
  "BindingErrors_Field errors name = List.find (field_error_named name) errors
   \<and> Error lib (BindingErrors []) = []
   \<and> Error lib (BindingErrors [e]) = Error lib e
   \<and> Error lib (BindingErrors (e # e' # es)) =
       Error lib e @ ''; '' @ Error lib (BindingErrors (e' # es))
   \<and> Error lib (BindingErrors errors) = Join (map (Error lib) errors) ''; ''
   \<and> Error lib (BindingErrors two_required) =
       ''Age '' @ [CHR 0xE2, CHR 0x80, CHR 0x94] @ '' field required but not specified; Name ''
       @ [CHR 0xE2, CHR 0x80, CHR 0x94] @ '' field required but not specified''"
  by (simp add: messages_of_append BindingErrors_Field_find two_required_def em_dash_def)

text \<open>
  C9: two inputs at which the assignment panics and no error is returned.
  An \<^verbatim>\<open>int64\<close> field annotated \<^verbatim>\<open>binding:"int"\<close>: without a width \<^verbatim>\<open>bindInt\<close>
  returns an \<^verbatim>\<open>int\<close>. An \<^verbatim>\<open>int\<close> field annotated with a function of the caller
  that returns the string it is given.
\<close>

theorem Bind_assignment_panics:
  "Bind lib (Pointer_to_struct st sn
       [(plain_field ''N'' (GoType ''int64'' Kind_Int64) [(''binding'', ''int'')], old)])
     (\<lambda>name. VString ''5'') [] =
   (Panic,
    Pointer_to_struct st sn
       [(plain_field ''N'' (GoType ''int64'' Kind_Int64) [(''binding'', ''int'')], old)],
    [''N''])
   \<and> Bind lib (Pointer_to_struct st sn
       [(plain_field ''D'' (GoType ''int'' Kind_Int) [(''binding'', ''custom'')], old)])
     (\<lambda>name. VString ''5'') [Bindings_option [''custom'' \<mapsto> (\<lambda>data opts. (data, None))]] =
   (Panic,
    Pointer_to_struct st sn
       [(plain_field ''D'' (GoType ''int'' Kind_Int) [(''binding'', ''custom'')], old)],
    [''D''])"
proof -
  have "bindInt_parse (VString ''5'') 10 0 = (VInt 5, None)"
    by (simp add: bindInt_parse_def parse_defs)
  then show ?thesis
    by (simp add: Bind_def Let_def tag_defs plain_field_sel builtin_bindings_def bindInt_no_opts
        Set_ok_def is_basic_def)
qed

text \<open>
  C10 as stated fails when the caller registers a function under the empty
  name: the empty default tag of a \<^verbatim>\<open>bool\<close> field then finds it, the mapper is
  called, and the call returns \<^verbatim>\<open>nil\<close>.
\<close>

theorem Bind_no_default_binding_counterexample:
  "no_default_binding (type_Kind (Type flag_field))
   \<and> Lookup (Tag flag_field) ''binding'' = None
   \<and> getFieldName flag_field = ''Flag''
   \<and> Bind example_lib (Pointer_to_struct ''struct { Flag bool }'' [] [(flag_field, true_value)])
       (\<lambda>name. VNil) [Bindings_option [[] \<mapsto> (\<lambda>data opts. (data, None))]] =
     (Return None, Pointer_to_struct ''struct { Flag bool }'' [] [(flag_field, true_value)],
      [''Flag''])"
  by (simp add: Bind_def Let_def tag_defs flag_field_def plain_field_sel builtin_bindings_def
      no_default_binding_def next_field_def)

text \<open>
  C10, amended: a field of a kind without default conversion, with no
  \<^verbatim>\<open>binding\<close> annotation (or an empty one) and a name that is not empty, in a
  call in which no function is registered under the empty name. When the
  loop reaches the field, \<^verbatim>\<open>Bind\<close> returns the \<^verbatim>\<open>InvalidBindingError\<close> "specified
  but not registered" alone, whatever errors were collected, and has not
  called the mapper for the field; when the field is the first of the struct
  the mapper is not called at all.
\<close>

theorem Bind_no_default_binding:
  assumes "no_default_binding (type_Kind (Type field))"
    and "Lookup (Tag field) ''binding'' = None \<or> Lookup (Tag field) ''binding'' = Some []"
    and "registry lib options [] = None"
    and "resolver lib options field \<noteq> []"
  shows "Bind_fields lib (registry lib options) (resolver lib options) mapper st sn
           ((field, old) # rest) errors =
         (Return (Some (not_registered st field)), (field, old) # rest, [])
         \<and> Bind lib (Pointer_to_struct st sn ((field, old) # rest)) mapper options =
         (Return (Some (not_registered st field)),
          Pointer_to_struct st sn ((field, old) # rest), [])"
proof -
  have "getBinding field (registry lib options) = None"
    using assms(1-3) by (rule getBinding_no_default)
  with assms(4) have step: "\<And>errors.
      Bind_fields lib (registry lib options) (resolver lib options) mapper st sn
        ((field, old) # rest) errors =
      (Return (Some (not_registered st field)), (field, old) # rest, [])"
    by (simp add: not_registered_def)
  show ?thesis
    by (simp only: Bind_struct step) simp
qed

text \<open>C10, amended, at \<^verbatim>\<open>struct { Flag bool }\<close> and a call without options.\<close>

theorem Bind_no_default_binding_witness:
  "Bind example_lib (Pointer_to_struct ''struct { Flag bool }'' [] [(flag_field, true_value)])
     (\<lambda>name. VNil) [] =
   (Return (Some (InvalidBindingError
      ''binding for struct { Flag bool }.Flag is specified but not registered'')),
    Pointer_to_struct ''struct { Flag bool }'' [] [(flag_field, true_value)], [])"
proof -
  have 1: "no_default_binding (type_Kind (Type flag_field))"
    by (simp add: flag_field_def plain_field_sel no_default_binding_def)
  have 2: "Lookup (Tag flag_field) ''binding'' = None
             \<or> Lookup (Tag flag_field) ''binding'' = Some []"
    by (simp add: flag_field_def plain_field_sel Lookup_def)
  have 3: "registry example_lib [] [] = None"
    by (simp add: registry_default builtin_bindings_empty)
  have 4: "resolver example_lib [] flag_field \<noteq> []"
    by (simp add: resolver_default flag_field_def getFieldName_plain)
  show ?thesis
    using Bind_no_default_binding [OF 1 2 3 4]
    by (simp add: not_registered_def flag_field_def plain_field_sel)
qed

end
